theory Spec2Isabelle
  imports Complex_Main
begin

section \<open>JSON values and JavaScript truthiness\<close>

text \<open>
  The backend (server.js) moves JSON documents between the HTTP client, an in-memory
  cache and two Python programs. A JavaScript value that \<open>JSON.parse\<close> can produce
  is a \<open>json\<close>; a number is the real that the double denotes. Strings are byte lists, a character
  outside ASCII is written as its UTF-8 bytes.
\<close>

datatype json =
    JNull
  | JBool bool
  | JNum real
  | JStr string
  | JArr "json list"
  | JObj "(string \<times> json) list"

text \<open>\<open>if (v)\<close>: null, false, 0 and the empty string are falsy; arrays and objects are truthy.\<close>

fun truthy :: "json \<Rightarrow> bool" where
  "truthy JNull = False"
| "truthy (JBool b) = b"
| "truthy (JNum n) = (n \<noteq> 0)"
| "truthy (JStr s) = (s \<noteq> [])"
| "truthy (JArr xs) = True"
| "truthy (JObj fs) = True"

text \<open>\<open>v.name\<close> on a value other than null: the own property, \<open>None\<close> for undefined.\<close>

fun getProp :: "string \<Rightarrow> json \<Rightarrow> json option" where
  "getProp name (JObj fs) = map_of fs name"
| "getProp name v = None"


text \<open>\<open>s.includes(t)\<close>: \<open>t\<close> occurs in \<open>s\<close> as a contiguous substring.\<close>

fun str_includes :: "string \<Rightarrow> string \<Rightarrow> bool" where
  "str_includes [] t = (t = [])"
| "str_includes (c # cs) t = (take (length t) (c # cs) = t \<or> str_includes cs t)"

section \<open>The surroundings of a call\<close>

text \<open>
  What one service call reads from outside: the clock (\<open>now\<close> in milliseconds,
  \<open>new Date().toDateString()\<close>, \<open>new Date().toISOString()\<close>), the successive results
  of \<open>Math.random()\<close> and the configured \<open>this.garmindbPath\<close>.
\<close>

record env =
  now :: nat
  toDateString :: string
  toISOString :: string
  random :: "nat \<Rightarrow> real"
  garmindbPath :: string

text \<open>
  One run of a spawned Python process: when its \<open>close\<close> event arrives (milliseconds
  after the spawn, \<open>None\<close> when it does not end by itself), its exit code (\<open>None\<close>
  for null, a process ended by a signal) and what it wrote to stdout and stderr.
\<close>

record proc_run =
  close_after :: "nat option"
  exit_code :: "int option"
  stdout :: string
  stderr :: string

text \<open>How a promise settles.\<close>

datatype settled = Resolved json | Rejected string

text \<open>The actions that the file passes to \<open>callGarminDBService\<close>.\<close>

datatype action = get_latest_metrics | sync_data | get_weekly_summary | check_status

fun action_name :: "action \<Rightarrow> string" where
  "action_name get_latest_metrics = ''get_latest_metrics''"
| "action_name sync_data = ''sync_data''"
| "action_name get_weekly_summary = ''get_weekly_summary''"
| "action_name check_status = ''check_status''"

section \<open>GarminDBService.getFallbackData\<close>

text \<open>
  JavaScript numbers are IEEE 754 doubles: the product \<open>Math.random() * n\<close> is the
  exact product rounded to the nearest double, ties to even. \<open>binary64\<close> is that
  rounding, with 53 significant bits and the exponent bounded below by -1022
  (subnormal numbers); overflow to infinity is left out, no product here comes near it.
\<close>

definition round_half_even :: "real \<Rightarrow> int" where
  "round_half_even y =
     (let f = \<lfloor>y\<rfloor>; d = y - of_int f
      in if d < 1 / 2 then f else if 1 / 2 < d then f + 1 else if even f then f else f + 1)"

definition pow2 :: "int \<Rightarrow> real" where
  "pow2 k = (if 0 \<le> k then 2 ^ nat k else 1 / 2 ^ nat (- k))"

definition binary64 :: "real \<Rightarrow> real" where
  "binary64 x =
     (if x = 0 then 0
      else let ulp = pow2 (max (- 1022) \<lfloor>log 2 \<bar>x\<bar>\<rfloor> - 52)
           in sgn x * of_int (round_half_even (\<bar>x\<bar> / ulp)) * ulp)"

text \<open>
  \<open>Math.floor(Math.random() * n) + base\<close>, with the \<open>i\<close>-th draw of the call. The
  floor of a double and the sum of two small integers are exact.
\<close>

definition randomInt :: "env \<Rightarrow> nat \<Rightarrow> int \<Rightarrow> int \<Rightarrow> json" where
  "randomInt e i n base = JNum (of_int (\<lfloor>binary64 (random e i * of_int n)\<rfloor> + base))"

text \<open>The object literal \<open>fallbackData\<close>: three own properties, none for \<open>check_status\<close>.\<close>

fun fallbackData :: "env \<Rightarrow> action \<Rightarrow> json option" where
  "fallbackData e get_latest_metrics = Some (JObj
     [(''steps'', randomInt e 0 5000 5000),
      (''averageHeartRate'', randomInt e 1 20 70),
      (''sleepScore'', randomInt e 2 30 70),
      (''stressLevel'', randomInt e 3 40 20),
      (''bodyBattery'', randomInt e 4 40 60),
      (''restingHeartRate'', randomInt e 5 15 55),
      (''lastActivity'', JObj
         [(''activityName'', JStr ''Morning Walk''),
          (''sport'', JStr ''walking''),
          (''distance'', JNum 3200),
          (''calories'', JNum 180)]),
      (''recoveryStatus'', JStr ''Demo Mode - Good Recovery''),
      (''recoveryAdvice'',
         JStr ''This is demo data. Connect your Garmin device for real insights.''),
      (''timestamp'', JStr (toISOString e)),
      (''dataSource'', JStr ''fallback'')])"
| "fallbackData e sync_data = Some (JObj
     [(''success'', JBool False),
      (''message'', JStr ''GarminDB not available - using demo data''),
      (''lastSync'', JStr (toISOString e))])"
| "fallbackData e get_weekly_summary = Some (JObj
     [(''weekly_steps'', JArr
         [JArr [JStr ''2024-01-15'', JNum 8500],
          JArr [JStr ''2024-01-16'', JNum 12000],
          JArr [JStr ''2024-01-17'', JNum 6200],
          JArr [JStr ''2024-01-18'', JNum 9800],
          JArr [JStr ''2024-01-19'', JNum 11500],
          JArr [JStr ''2024-01-20'', JNum 7300],
          JArr [JStr ''2024-01-21'', JNum 10200]]),
      (''activity_count'', JNum 4),
      (''avg_distance'', JNum 5000),
      (''total_calories'', JNum 1200),
      (''period'', JStr ''Last 7 days (Demo)'')])"
| "fallbackData e check_status = None"

text \<open>\<open>return fallbackData[action] || { error: 'Unknown action' }\<close>\<close>

definition getFallbackData :: "env \<Rightarrow> action \<Rightarrow> json" where
  "getFallbackData e a =
     (case fallbackData e a of
        Some v \<Rightarrow> if truthy v then v else JObj [(''error'', JStr ''Unknown action'')]
      | None \<Rightarrow> JObj [(''error'', JStr ''Unknown action'')])"

section \<open>GarminDBService.callGarminDBService\<close>

text \<open>
  The promise settles with whichever handler runs first: the \<open>close\<close> handler when
  the process ends before the timer of \<open>limit\<close> milliseconds, the timer otherwise
  (a later \<open>resolve\<close> or \<open>reject\<close> has no effect).
\<close>

definition closes_before :: "nat \<Rightarrow> proc_run \<Rightarrow> bool" where
  "closes_before limit run = (case close_after run of Some t \<Rightarrow> t < limit | None \<Rightarrow> False)"

definition settle_delay :: "nat \<Rightarrow> proc_run \<Rightarrow> nat" where
  "settle_delay limit run =
     (case close_after run of Some t \<Rightarrow> if t < limit then t else limit | None \<Rightarrow> limit)"



text \<open>The document handed to \<open>garmindb_service.py\<close> on its command line.\<close>

definition garmin_payload :: "env \<Rightarrow> action \<Rightarrow> json \<Rightarrow> json" where
  "garmin_payload e a params =
     JObj [(''action'', JStr (action_name a)), (''params'', params),
           (''garmindb_path'', JStr (garmindbPath e))]"

text \<open>
  \<open>parse\<close> stands for \<open>JSON.parse\<close> (\<open>None\<close> when it throws) and \<open>prog\<close> for the
  Python program: the run it makes when spawned with a payload. The spawn itself is
  taken to succeed.
\<close>

definition callGarminDBService ::
  "(string \<Rightarrow> json option) \<Rightarrow> env \<Rightarrow> (json \<Rightarrow> proc_run) \<Rightarrow> action \<Rightarrow> json \<Rightarrow> settled" where
  "callGarminDBService parse e prog a params =
     (let run = prog (garmin_payload e a params) in
      if closes_before 15000 run then
        (if exit_code run = Some 0 then
           (case parse (stdout run) of
              Some response \<Rightarrow> Resolved response
            | None \<Rightarrow> Resolved (getFallbackData e a))
         else Resolved (getFallbackData e a))
      else Resolved (getFallbackData e a))"

text \<open>The three ways in which a run fails, for a bridge with the given time limit.\<close>

definition run_failed :: "nat \<Rightarrow> (string \<Rightarrow> json option) \<Rightarrow> proc_run \<Rightarrow> bool" where
  "run_failed limit parse run =
     (\<not> closes_before limit run \<or> exit_code run \<noteq> Some 0 \<or> parse (stdout run) = None)"

section \<open>The cache and its deletion timers\<close>

text \<open>
  \<open>garminCache\<close> is the global object used as a dictionary. \<open>timers\<close> are the pending
  \<open>setTimeout(() => delete garminCache[cacheKey], 1800000)\<close> callbacks with the time
  at which each comes due. \<open>spawns\<close> counts the GarminDB processes spawned so far.
\<close>

record server =
  garminCache :: "string \<Rightarrow> json option"
  timers :: "(nat \<times> string) list"
  spawns :: nat

text \<open>The event loop runs every timer that is due at time \<open>t\<close>.\<close>

definition due_keys :: "nat \<Rightarrow> server \<Rightarrow> string list" where
  "due_keys t st = map snd (filter (\<lambda>tm. fst tm \<le> t) (timers st))"

definition run_timers :: "nat \<Rightarrow> server \<Rightarrow> server" where
  "run_timers t st =
     st \<lparr> garminCache := (\<lambda>k. if k \<in> set (due_keys t st) then None else garminCache st k),
          timers := filter (\<lambda>tm. t < fst tm) (timers st) \<rparr>"

text \<open>
  While a service method awaits the bridge, one process has been spawned and the timers
  that come due until the promise settles are run.
\<close>

definition after_await :: "env \<Rightarrow> proc_run \<Rightarrow> server \<Rightarrow> server" where
  "after_await e run st =
     run_timers (now e + settle_delay 15000 run) (st \<lparr> spawns := Suc (spawns st) \<rparr>)"

definition cacheKey :: "string \<Rightarrow> env \<Rightarrow> string" where
  "cacheKey userId e = ''metrics_'' @ userId @ ''_'' @ toDateString e"

text \<open>\<open>if (garminCache[cacheKey]) return garminCache[cacheKey]\<close>\<close>

definition cache_lookup :: "server \<Rightarrow> string \<Rightarrow> json option" where
  "cache_lookup st k =
     (case garminCache st k of Some v \<Rightarrow> if truthy v then Some v else None | None \<Rightarrow> None)"

section \<open>GarminDBService: the service methods\<close>

definition getLatestMetrics ::
  "(string \<Rightarrow> json option) \<Rightarrow> env \<Rightarrow> (json \<Rightarrow> proc_run) \<Rightarrow> string \<Rightarrow> server \<Rightarrow> json \<times> server" where
  "getLatestMetrics parse e prog userId st =
     (case cache_lookup st (cacheKey userId e) of
        Some v \<Rightarrow> (v, st)
      | None \<Rightarrow>
         (let params = JObj [(''user_id'', JStr userId)];
              run = prog (garmin_payload e get_latest_metrics params);
              st1 = after_await e run st
          in case callGarminDBService parse e prog get_latest_metrics params of
               Resolved metrics \<Rightarrow>
                 (metrics,
                  st1 \<lparr> garminCache := (garminCache st1)(cacheKey userId e \<mapsto> metrics),
                        timers := timers st1 @
                          [(now e + settle_delay 15000 run + 1800000, cacheKey userId e)] \<rparr>)
             | Rejected err \<Rightarrow> (getFallbackData e get_latest_metrics, st1)))"

definition syncGarminData ::
  "(string \<Rightarrow> json option) \<Rightarrow> env \<Rightarrow> (json \<Rightarrow> proc_run) \<Rightarrow> string \<Rightarrow> server \<Rightarrow> json \<times> server" where
  "syncGarminData parse e prog userId st =
     (let params = JObj [(''user_id'', JStr userId)];
          run = prog (garmin_payload e sync_data params);
          st1 = after_await e run st
      in case callGarminDBService parse e prog sync_data params of
           Resolved result \<Rightarrow>
             (result,
              st1 \<lparr> garminCache :=
                      (\<lambda>key. if str_includes key userId then None else garminCache st1 key) \<rparr>)
         | Rejected err \<Rightarrow> (getFallbackData e sync_data, st1))"

definition getWeeklySummary ::
  "(string \<Rightarrow> json option) \<Rightarrow> env \<Rightarrow> (json \<Rightarrow> proc_run) \<Rightarrow> string \<Rightarrow> server \<Rightarrow> json \<times> server" where
  "getWeeklySummary parse e prog userId st =
     (let params = JObj [(''user_id'', JStr userId)];
          run = prog (garmin_payload e get_weekly_summary params);
          st1 = after_await e run st
      in case callGarminDBService parse e prog get_weekly_summary params of
           Resolved summary \<Rightarrow> (summary, st1)
         | Rejected err \<Rightarrow> (getFallbackData e get_weekly_summary, st1))"

definition checkGarminDBStatus ::
  "(string \<Rightarrow> json option) \<Rightarrow> env \<Rightarrow> (json \<Rightarrow> proc_run) \<Rightarrow> server \<Rightarrow> json \<times> server" where
  "checkGarminDBStatus parse e prog st =
     (let run = prog (garmin_payload e check_status (JObj []));
          st1 = after_await e run st
      in case callGarminDBService parse e prog check_status (JObj []) of
           Resolved result \<Rightarrow> (result, st1)
         | Rejected err \<Rightarrow>
             (JObj [(''connected'', JBool False),
                    (''status'', JStr ''GarminDB not available''),
                    (''setup_required'', JBool True),
                    (''message'', JStr ''Please install and configure GarminDB'')], st1))"

section \<open>AgentService.callAgent\<close>

text \<open>
  An argument or a body field that is \<open>undefined\<close> is \<open>None\<close>. \<open>JSON.stringify\<close>
  leaves out a property whose value is undefined; \<open>message\<close> defaults to null.
\<close>

definition defined_fields :: "(string \<times> json option) list \<Rightarrow> (string \<times> json) list" where
  "defined_fields fs = concat (map (\<lambda>(k, v). case v of Some w \<Rightarrow> [(k, w)] | None \<Rightarrow> []) fs)"

definition agent_payload :: "json option \<Rightarrow> json option \<Rightarrow> json option \<Rightarrow> json" where
  "agent_payload requestType data message =
     JObj (defined_fields
       [(''request_type'', requestType), (''data'', data),
        (''message'', Some (case message of Some m \<Rightarrow> m | None \<Rightarrow> JNull))])"

definition callAgent ::
  "(string \<Rightarrow> json option) \<Rightarrow> (json \<Rightarrow> proc_run) \<Rightarrow> json option \<Rightarrow> json option \<Rightarrow> json option
     \<Rightarrow> settled" where
  "callAgent parse prog requestType data message =
     (let run = prog (agent_payload requestType data message) in
      if closes_before 30000 run then
        (if exit_code run = Some 0 then
           (case parse (stdout run) of
              Some response \<Rightarrow> Resolved response
            | None \<Rightarrow> Rejected ''Failed to parse agent response'')
         else Rejected (''Agent process failed: '' @ stderr run))
      else Rejected ''Agent request timeout'')"

section \<open>The routes\<close>

record http_response =
  status :: nat
  body :: json

text \<open>\<open>req.headers['user-id'] || 'demo-user'\<close>\<close>

definition header_user :: "string option \<Rightarrow> string" where
  "header_user h = (case h of Some u \<Rightarrow> if u \<noteq> [] then u else ''demo-user'' | None \<Rightarrow> ''demo-user'')"




definition chat_failure_body :: json where
  "chat_failure_body =
     JObj [(''response'', JStr ''I'm getting ready to help you! Please make sure your Garmin data is synced and try again.''),
           (''agent_type'', JStr ''system'')]"


text \<open>
  \<open>app.post('/agent/chat')\<close>: \<open>message\<close> and \<open>conversation_history\<close> are read from
  the request body, the user from the header.
\<close>

definition route_agent_chat ::
  "(string \<Rightarrow> json option) \<Rightarrow> env \<Rightarrow> (json \<Rightarrow> proc_run) \<Rightarrow> (json \<Rightarrow> proc_run) \<Rightarrow> string option
     \<Rightarrow> json option \<Rightarrow> json option \<Rightarrow> server \<Rightarrow> http_response \<times> server" where
  "route_agent_chat parse e gprog aprog h message conversation_history st =
     (let userId = header_user h;
          (metrics, st1) = getLatestMetrics parse e gprog userId st
      in case callAgent parse aprog (Some (JStr ''chat'')) (Some metrics) message of
           Resolved response \<Rightarrow> (\<lparr> status = 200, body = response \<rparr>, st1)
         | Rejected err \<Rightarrow> (\<lparr> status = 500, body = chat_failure_body \<rparr>, st1))"

section \<open>Concrete inputs\<close>

text \<open>
  A clock reading at 09:00 on 3 November 2026 (\<open>now\<close> counts milliseconds from the
  start of that day) with every random draw equal to one half, and later readings.
\<close>

definition demo_env :: env where
  "demo_env = \<lparr> now = 32400000, toDateString = ''Tue Nov 03 2026'',
                toISOString = ''2026-11-03T09:00:00.000Z'',
                random = (\<lambda>i. 1 / 2), garmindbPath = ''/home/u/GarminDB'' \<rparr>"

definition at_clock :: "nat \<Rightarrow> string \<Rightarrow> string \<Rightarrow> env" where
  "at_clock t date stamp = demo_env \<lparr> now := t, toDateString := date, toISOString := stamp \<rparr>"

text \<open>A stand-in for \<open>JSON.parse\<close> that agrees with it on the outputs used below.\<close>

definition demo_parse :: "string \<Rightarrow> json option" where
  \<open>demo_parse s =
     (if s = ''{"steps": 8547}'' then Some (JObj [(''steps'', JNum 8547)])
      else if s = ''{"steps": 12}'' then Some (JObj [(''steps'', JNum 12)])
      else if s = ''{"success": true}'' then Some (JObj [(''success'', JBool True)])
      else if s = ''{"response": "Rest today."}'' then Some (JObj [(''response'', JStr ''Rest today.'')])
      else None)\<close>

definition live_snapshot :: json where
  "live_snapshot = JObj [(''steps'', JNum 8547)]"

definition live_run :: proc_run where
  \<open>live_run = \<lparr> close_after = Some 800, exit_code = Some 0,
                stdout = ''{"steps": 8547}'', stderr = [] \<rparr>\<close>


definition sync_ok_run :: proc_run where
  \<open>sync_ok_run = \<lparr> close_after = Some 4000, exit_code = Some 0,
                   stdout = ''{"success": true}'', stderr = [] \<rparr>\<close>

definition agent_ok_run :: proc_run where
  \<open>agent_ok_run = \<lparr> close_after = Some 2500, exit_code = Some 0,
                    stdout = ''{"response": "Rest today."}'', stderr = [] \<rparr>\<close>

definition crashed_run :: proc_run where
  "crashed_run = \<lparr> close_after = Some 120, exit_code = Some 1,
                   stdout = [], stderr = ''No module named garmindb'' \<rparr>"


definition hung_run :: proc_run where
  "hung_run = \<lparr> close_after = None, exit_code = None, stdout = [], stderr = [] \<rparr>"

definition empty_server :: server where
  "empty_server = \<lparr> garminCache = (\<lambda>k. None), timers = [], spawns = 0 \<rparr>"

text \<open>The fallback snapshot and the fallback sync report that \<open>demo_env\<close> gives.\<close>

definition demo_fallback :: json where
  "demo_fallback = JObj
     [(''steps'', JNum 7500),
      (''averageHeartRate'', JNum 80),
      (''sleepScore'', JNum 85),
      (''stressLevel'', JNum 40),
      (''bodyBattery'', JNum 80),
      (''restingHeartRate'', JNum 62),
      (''lastActivity'', JObj
         [(''activityName'', JStr ''Morning Walk''),
          (''sport'', JStr ''walking''),
          (''distance'', JNum 3200),
          (''calories'', JNum 180)]),
      (''recoveryStatus'', JStr ''Demo Mode - Good Recovery''),
      (''recoveryAdvice'',
         JStr ''This is demo data. Connect your Garmin device for real insights.''),
      (''timestamp'', JStr ''2026-11-03T09:00:00.000Z''),
      (''dataSource'', JStr ''fallback'')]"


text \<open>Two users, \<open>u1\<close> and \<open>u10\<close>, each with a cached snapshot of that day.\<close>

definition two_user_server :: server where
  "two_user_server =
     \<lparr> garminCache =
         [''metrics_u1_Tue Nov 03 2026'' \<mapsto> JObj [(''steps'', JNum 8547)],
          ''metrics_u10_Tue Nov 03 2026'' \<mapsto> JObj [(''steps'', JNum 12)]],
       timers = [(34200800, ''metrics_u1_Tue Nov 03 2026''),
                 (34200900, ''metrics_u10_Tue Nov 03 2026'')],
       spawns = 2 \<rparr>"

text \<open>An agent program that answers only when the data of its payload are tagged as fallback.\<close>

definition fallback_reading_agent :: "json \<Rightarrow> proc_run" where
  "fallback_reading_agent payload =
     (case getProp ''data'' payload of
        Some d \<Rightarrow>
          if getProp ''dataSource'' d = Some (JStr ''fallback'') then agent_ok_run else crashed_run
      | None \<Rightarrow> crashed_run)"

text \<open>A program that makes the same run whatever payload it is given.\<close>

definition always :: "proc_run \<Rightarrow> json \<Rightarrow> proc_run" where
  "always run payload = run"

definition sync_env :: env where
  "sync_env = at_clock 33000000 ''Tue Nov 03 2026'' ''2026-11-03T09:10:00.000Z''"

text \<open>
  The state that a first live fetch for \<open>u1\<close> at 09:00 leaves, and a clock reading one
  millisecond after the deletion timer of that entry has come due.
\<close>

definition aged_server :: server where
  "aged_server =
     \<lparr> garminCache = [''metrics_u1_Tue Nov 03 2026'' \<mapsto> JObj [(''steps'', JNum 8547)]],
       timers = [(34200800, ''metrics_u1_Tue Nov 03 2026'')],
       spawns = 1 \<rparr>"

definition late_env :: env where
  "late_env = at_clock 34200801 ''Tue Nov 03 2026'' ''2026-11-03T09:30:00.801Z''"





section \<open>Properties\<close>

subsection \<open>Rounding to a double\<close>

lemma pow2_pos: "0 < pow2 k"
  by (simp add: pow2_def)

lemma pow2_powr: "pow2 k = 2 powr (of_int k)"
  by (simp add: pow2_def powr_realpow [symmetric] powr_minus divide_inverse)

lemma round_half_even_nonneg: "0 \<le> y \<Longrightarrow> 0 \<le> round_half_even y"
  by (simp add: round_half_even_def Let_def)

lemma round_half_even_le:
  assumes "y \<le> of_int N"
  shows "round_half_even y \<le> N"
proof (cases "\<lfloor>y\<rfloor> = N")
  case True
  with assms have "y - of_int \<lfloor>y\<rfloor> \<le> 0"
    by simp
  with True show ?thesis
    by (simp add: round_half_even_def Let_def)
next
  case False
  have "\<lfloor>y\<rfloor> \<le> N"
    using assms by (simp add: floor_le_iff)
  with False have "\<lfloor>y\<rfloor> + 1 \<le> N"
    by simp
  then show ?thesis
    by (simp add: round_half_even_def Let_def)
qed

lemma round_half_even_of_int: "round_half_even (of_int m) = m"
  by (simp add: round_half_even_def)

lemma floor_log2_le:
  assumes "0 < x" "x \<le> 2 ^ n"
  shows "\<lfloor>log 2 x\<rfloor> \<le> int n"
proof -
  have "log 2 x \<le> real n"
    using assms by (simp add: log_le_iff powr_realpow)
  then show ?thesis
    by (simp add: floor_le_iff)
qed

lemma floor_log2_eq:
  assumes "0 < x" "pow2 L \<le> x" "x < pow2 (L + 1)"
  shows "\<lfloor>log 2 x\<rfloor> = L"
  using assms floor_log_eq_powr_iff [of x 2 L] by (simp add: pow2_powr)

lemma binary64_nonneg:
  assumes "0 \<le> x"
  shows "0 \<le> binary64 x"
proof (cases "x = 0")
  case True
  then show ?thesis by (simp add: binary64_def)
next
  case False
  with assms have pos: "0 < x" by simp
  let ?ulp = "pow2 (max (- 1022) \<lfloor>log 2 \<bar>x\<bar>\<rfloor> - 52)"
  have "0 \<le> \<bar>x\<bar> / ?ulp"
    using pow2_pos [of "max (- 1022) \<lfloor>log 2 \<bar>x\<bar>\<rfloor> - 52"] by simp
  then have "0 \<le> round_half_even (\<bar>x\<bar> / ?ulp)"
    by (rule round_half_even_nonneg)
  then show ?thesis
    using pos pow2_pos [of "max (- 1022) \<lfloor>log 2 \<bar>x\<bar>\<rfloor> - 52"]
    by (simp add: binary64_def Let_def)
qed

lemma binary64_le_int:
  assumes "0 \<le> x" and "x \<le> of_int n" and "n \<le> 2 ^ 52"
  shows "binary64 x \<le> of_int n"
proof (cases "x = 0")
  case True
  with assms show ?thesis by (simp add: binary64_def)
next
  case False
  with assms have pos: "0 < x" by simp
  define k where "k = max (- 1022) \<lfloor>log 2 \<bar>x\<bar>\<rfloor> - 52"
  have "real_of_int n \<le> real_of_int (2 ^ 52)"
    using assms(3) by (simp only: of_int_le_iff)
  then have "x \<le> 2 ^ 52"
    using assms(2) by simp
  then have "\<lfloor>log 2 x\<rfloor> \<le> 52"
    using floor_log2_le [OF pos, of 52] by simp
  then have k: "k \<le> 0"
    using pos by (simp add: k_def)
  define m where "m = nat (- k)"
  have ulp: "pow2 k = 1 / 2 ^ m"
    using k by (cases "k = 0") (simp_all add: pow2_def m_def)
  have "\<bar>x\<bar> / pow2 k \<le> of_int (n * 2 ^ m)"
    using pos assms(2) by (simp add: ulp)
  then have "round_half_even (\<bar>x\<bar> / pow2 k) \<le> n * 2 ^ m"
    by (rule round_half_even_le)
  then have "real_of_int (round_half_even (\<bar>x\<bar> / pow2 k)) \<le> real_of_int (n * 2 ^ m)"
    by (simp only: of_int_le_iff)
  then have "real_of_int (round_half_even (\<bar>x\<bar> / pow2 k)) * pow2 k \<le> of_int n"
    by (simp add: ulp field_simps)
  then show ?thesis
    using pos by (simp add: binary64_def Let_def k_def)
qed

lemma binary64_exact:
  assumes "1 \<le> x" and "x < 2 ^ 52" and "2 * x \<in> \<int>"
  shows "binary64 x = x"
proof -
  have pos: "0 < x" using assms(1) by simp
  define L where "L = \<lfloor>log 2 x\<rfloor>"
  have L0: "0 \<le> L"
    using assms(1) by (simp add: L_def)
  have L52: "L \<le> 52"
    using floor_log2_le [OF pos, of 52] assms(2) by (simp add: L_def)
  have "log 2 x < 52"
    using assms(2) pos by (simp add: log_less_iff)
  then have L51: "L \<le> 51"
    by (simp add: L_def floor_le_iff)
  define m where "m = nat (51 - L)"
  have k: "max (- 1022) L - 52 = - int (Suc m)"
    using L0 L51 by (simp add: m_def)
  have ulp: "pow2 (max (- 1022) L - 52) = 1 / 2 ^ Suc m"
    unfolding k by (simp add: pow2_def nat_add_distrib)
  obtain j where j: "2 * x = of_int j"
    using assms(3) by (auto elim: Ints_cases)
  have q: "x / pow2 (max (- 1022) L - 52) = of_int (j * 2 ^ m)"
    using j by (simp add: ulp)
  have "round_half_even (x / pow2 (max (- 1022) L - 52)) = j * 2 ^ m"
    by (simp only: q round_half_even_of_int)
  then have "real_of_int (round_half_even (x / pow2 (max (- 1022) L - 52)))
      = x / pow2 (max (- 1022) L - 52)"
    by (simp only: q)
  then have "real_of_int (round_half_even (x / pow2 (max (- 1022) L - 52)))
      * pow2 (max (- 1022) L - 52) = x"
    using pow2_pos [of "max (- 1022) L - 52"] by simp
  then show ?thesis
    using pos by (simp add: binary64_def Let_def L_def)
qed

lemma randomInt_range:
  assumes "0 \<le> random e i" and "random e i < 1" and "0 < n" and "n \<le> 2 ^ 52"
  shows "\<exists>k. randomInt e i n base = JNum (of_int k) \<and> base \<le> k \<and> k \<le> base + n"
proof -
  let ?p = "binary64 (random e i * of_int n)"
  have nonneg: "0 \<le> random e i * of_int n"
    using assms by simp
  have below: "random e i * of_int n \<le> of_int n"
    using assms by simp
  have "0 \<le> ?p"
    using nonneg by (rule binary64_nonneg)
  then have "0 \<le> \<lfloor>?p\<rfloor>"
    by simp
  moreover have "?p \<le> of_int n"
    using nonneg below assms(4) by (rule binary64_le_int)
  then have "\<lfloor>?p\<rfloor> \<le> n"
    by (simp add: floor_le_iff)
  ultimately show ?thesis
    unfolding randomInt_def by (intro exI [of _ "\<lfloor>?p\<rfloor> + base"]) simp
qed

text \<open>The double nearest to 0.3 times 5000 rounds up to 1500.\<close>

lemma binary64_point_three:
  "binary64 (5404319552844595 / 2 ^ 54 * 5000) = 1500"
proof -
  define x :: real where "x = 3377699720527871875 / 2251799813685248"
  have pos: "0 < x" "\<bar>x\<bar> = x" "x \<noteq> 0" "sgn x = 1"
    by (simp_all add: x_def)
  have L: "\<lfloor>log 2 x\<rfloor> = 10"
    by (rule floor_log2_eq) (simp_all add: pow2_def x_def)
  have ulp: "pow2 (- 42) = 1 / 4398046511104"
    by (simp add: pow2_def)
  have "round_half_even (x * 4398046511104) = 6597069766656000"
    by (simp add: round_half_even_def x_def Let_def)
  then have "binary64 x = 1500"
    by (simp add: binary64_def pos L ulp Let_def)
  then show ?thesis
    by (simp add: x_def)
qed

text \<open>With the double nearest to 0.3 as first draw, the steps are 6500.\<close>

lemma randomInt_point_three:
  assumes "random e 0 = 5404319552844595 / 2 ^ 54"
  shows "randomInt e 0 5000 5000 = JNum 6500"
  using binary64_point_three by (simp add: randomInt_def assms)

subsection \<open>The fallback snapshot\<close>

text \<open>
  Claim C9. Whatever \<open>Math.random()\<close> returns (each draw in the interval from 0
  inclusive to 1 exclusive), with every product rounded as a double, the snapshot that \<open>getFallbackData('get_latest_metrics')\<close>
  builds has steps in 5000..10000, sleep score in 70..100, stress level in 20..60,
  body battery in 60..100 and resting heart rate in 55..70, is tagged
  \<open>dataSource: 'fallback'\<close> and carries the fixed demo-mode recovery texts.
\<close>

theorem getFallbackData_metrics_in_bounds:
  assumes draws: "\<forall>i. 0 \<le> random e i \<and> random e i < 1"
  shows "\<exists>steps sleep stress battery resting.
           getProp ''steps'' (getFallbackData e get_latest_metrics) = Some (JNum (of_int steps))
         \<and> 5000 \<le> steps \<and> steps \<le> 10000
         \<and> getProp ''sleepScore'' (getFallbackData e get_latest_metrics) = Some (JNum (of_int sleep))
         \<and> 70 \<le> sleep \<and> sleep \<le> 100
         \<and> getProp ''stressLevel'' (getFallbackData e get_latest_metrics) = Some (JNum (of_int stress))
         \<and> 20 \<le> stress \<and> stress \<le> 60
         \<and> getProp ''bodyBattery'' (getFallbackData e get_latest_metrics) = Some (JNum (of_int battery))
         \<and> 60 \<le> battery \<and> battery \<le> 100
         \<and> getProp ''restingHeartRate'' (getFallbackData e get_latest_metrics)
             = Some (JNum (of_int resting))
         \<and> 55 \<le> resting \<and> resting \<le> 70
         \<and> getProp ''dataSource'' (getFallbackData e get_latest_metrics) = Some (JStr ''fallback'')
         \<and> getProp ''recoveryStatus'' (getFallbackData e get_latest_metrics)
             = Some (JStr ''Demo Mode - Good Recovery'')
         \<and> getProp ''recoveryAdvice'' (getFallbackData e get_latest_metrics)
             = Some (JStr ''This is demo data. Connect your Garmin device for real insights.'')"
proof -
  from draws have d: "\<And>i. 0 \<le> random e i" "\<And>i. random e i < 1"
    by simp_all
  obtain steps where steps: "randomInt e 0 5000 5000 = JNum (of_int steps)"
      "5000 \<le> steps" "steps \<le> 10000"
    using randomInt_range [of e 0 5000 5000] d by auto
  obtain sleep where sleep: "randomInt e 2 30 70 = JNum (of_int sleep)"
      "70 \<le> sleep" "sleep \<le> 100"
    using randomInt_range [of e 2 30 70] d by auto
  obtain stress where stress: "randomInt e 3 40 20 = JNum (of_int stress)"
      "20 \<le> stress" "stress \<le> 60"
    using randomInt_range [of e 3 40 20] d by auto
  obtain battery where battery: "randomInt e 4 40 60 = JNum (of_int battery)"
      "60 \<le> battery" "battery \<le> 100"
    using randomInt_range [of e 4 40 60] d by auto
  obtain resting where resting: "randomInt e 5 15 55 = JNum (of_int resting)"
      "55 \<le> resting" "resting \<le> 70"
    using randomInt_range [of e 5 15 55] d by auto
  show ?thesis
    apply (rule exI [of _ steps], rule exI [of _ sleep], rule exI [of _ stress])
    apply (rule exI [of _ battery], rule exI [of _ resting])
    using steps sleep stress battery resting
    by (simp add: getFallbackData_def)
qed

theorem getFallbackData_metrics_in_bounds_witness:
  "(\<forall>i. 0 \<le> random demo_env i \<and> random demo_env i < 1)
   \<and> (\<exists>steps sleep stress battery resting.
           getProp ''steps'' (getFallbackData demo_env get_latest_metrics)
             = Some (JNum (of_int steps))
         \<and> 5000 \<le> steps \<and> steps \<le> 10000
         \<and> getProp ''sleepScore'' (getFallbackData demo_env get_latest_metrics)
             = Some (JNum (of_int sleep))
         \<and> 70 \<le> sleep \<and> sleep \<le> 100
         \<and> getProp ''stressLevel'' (getFallbackData demo_env get_latest_metrics)
             = Some (JNum (of_int stress))
         \<and> 20 \<le> stress \<and> stress \<le> 60
         \<and> getProp ''bodyBattery'' (getFallbackData demo_env get_latest_metrics)
             = Some (JNum (of_int battery))
         \<and> 60 \<le> battery \<and> battery \<le> 100
         \<and> getProp ''restingHeartRate'' (getFallbackData demo_env get_latest_metrics)
             = Some (JNum (of_int resting))
         \<and> 55 \<le> resting \<and> resting \<le> 70
         \<and> getProp ''dataSource'' (getFallbackData demo_env get_latest_metrics)
             = Some (JStr ''fallback'')
         \<and> getProp ''recoveryStatus'' (getFallbackData demo_env get_latest_metrics)
             = Some (JStr ''Demo Mode - Good Recovery'')
         \<and> getProp ''recoveryAdvice'' (getFallbackData demo_env get_latest_metrics)
             = Some (JStr ''This is demo data. Connect your Garmin device for real insights.''))"
proof -
  have h: "\<forall>i. 0 \<le> random demo_env i \<and> random demo_env i < 1"
    by (simp add: demo_env_def)
  from getFallbackData_metrics_in_bounds [OF h] h show ?thesis
    by blast
qed

subsection \<open>The bridge\<close>

lemma callGarminDBService_failed:
  assumes "run_failed 15000 parse (prog (garmin_payload e a params))"
  shows "callGarminDBService parse e prog a params = Resolved (getFallbackData e a)"
  using assms
  by (auto simp: callGarminDBService_def run_failed_def Let_def split: option.splits)

lemma callGarminDBService_live:
  assumes "closes_before 15000 (prog (garmin_payload e a params))"
      and "exit_code (prog (garmin_payload e a params)) = Some 0"
      and "parse (stdout (prog (garmin_payload e a params))) = Some v"
  shows "callGarminDBService parse e prog a params = Resolved v"
  using assms by (simp add: callGarminDBService_def Let_def)

lemma callGarminDBService_resolves:
  "\<exists>v. callGarminDBService parse e prog a params = Resolved v"
  by (simp add: callGarminDBService_def Let_def split: option.splits)


subsection \<open>Timers\<close>

lemma garminCache_run_timers:
  "garminCache (run_timers t st) k = (if k \<in> set (due_keys t st) then None else garminCache st k)"
  by (simp add: run_timers_def)


lemma spawns_run_timers: "spawns (run_timers t st) = spawns st"
  by (simp add: run_timers_def)

lemma due_keys_iff: "k \<in> set (due_keys t st) \<longleftrightarrow> (\<exists>due. (due, k) \<in> set (timers st) \<and> due \<le> t)"
  by (force simp: due_keys_def)


lemma str_includes_prefix: "take (length t) s = t \<Longrightarrow> str_includes s t"
  by (cases s) auto

lemma str_includes_append: "str_includes (xs @ t @ ys) t"
  by (induction xs) (simp_all add: str_includes_prefix)

lemma str_includes_cacheKey: "str_includes (cacheKey userId e) userId"
  unfolding cacheKey_def using str_includes_append [of "''metrics_''" userId "''_'' @ toDateString e"]
  by simp

lemma truthy_getFallbackData: "truthy (getFallbackData e a)"
  by (cases a) (simp_all add: getFallbackData_def)

lemma getFallbackData_demo_env:
  "getFallbackData demo_env get_latest_metrics = demo_fallback"
  by (simp add: getFallbackData_def demo_env_def demo_fallback_def randomInt_def binary64_exact)



lemma method_results:
  "Resolved (fst (checkGarminDBStatus parse e prog st))
      = callGarminDBService parse e prog check_status (JObj [])"
  "Resolved (fst (getWeeklySummary parse e prog userId st))
      = callGarminDBService parse e prog get_weekly_summary (JObj [(''user_id'', JStr userId)])"
  "Resolved (fst (syncGarminData parse e prog userId st))
      = callGarminDBService parse e prog sync_data (JObj [(''user_id'', JStr userId)])"
  "cache_lookup st (cacheKey userId e) = None \<Longrightarrow>
   Resolved (fst (getLatestMetrics parse e prog userId st))
      = callGarminDBService parse e prog get_latest_metrics (JObj [(''user_id'', JStr userId)])"
  using callGarminDBService_resolves [of parse e prog check_status "JObj []"]
        callGarminDBService_resolves [of parse e prog get_weekly_summary "JObj [(''user_id'', JStr userId)]"]
        callGarminDBService_resolves [of parse e prog sync_data "JObj [(''user_id'', JStr userId)]"]
        callGarminDBService_resolves [of parse e prog get_latest_metrics "JObj [(''user_id'', JStr userId)]"]
  by (auto simp: checkGarminDBStatus_def getWeeklySummary_def syncGarminData_def
        getLatestMetrics_def Let_def)

text \<open>
  Claim C10. The promise of \<open>callGarminDBService\<close> always resolves and never rejects:
  a failed run (non-zero exit, unparsable stdout, timeout) resolves with
  \<open>getFallbackData(action)\<close>, which for \<open>check_status\<close>, an action without an entry
  in the fallback table, is \<open>{error: 'Unknown action'}\<close>. Hence each of
  \<open>checkGarminDBStatus\<close>, \<open>getWeeklySummary\<close>, \<open>syncGarminData\<close> and (on a cache
  miss) \<open>getLatestMetrics\<close> returns the value its \<open>try\<close> block got from the promise;
  the \<open>catch\<close> blocks are never entered.
\<close>

theorem callGarminDBService_always_resolves:
  "(\<exists>v. callGarminDBService parse e prog a params = Resolved v)
   \<and> (run_failed 15000 parse (prog (garmin_payload e a params))
        \<longrightarrow> callGarminDBService parse e prog a params = Resolved (getFallbackData e a))
   \<and> getFallbackData e check_status = JObj [(''error'', JStr ''Unknown action'')]
   \<and> Resolved (fst (checkGarminDBStatus parse e prog st))
        = callGarminDBService parse e prog check_status (JObj [])
   \<and> Resolved (fst (getWeeklySummary parse e prog userId st))
        = callGarminDBService parse e prog get_weekly_summary (JObj [(''user_id'', JStr userId)])
   \<and> Resolved (fst (syncGarminData parse e prog userId st))
        = callGarminDBService parse e prog sync_data (JObj [(''user_id'', JStr userId)])
   \<and> (cache_lookup st (cacheKey userId e) = None \<longrightarrow>
        Resolved (fst (getLatestMetrics parse e prog userId st))
          = callGarminDBService parse e prog get_latest_metrics (JObj [(''user_id'', JStr userId)]))"
  using callGarminDBService_resolves [of parse e prog a params]
        callGarminDBService_failed [of parse prog e a params]
        method_results
  by (simp add: getFallbackData_def)

theorem callGarminDBService_always_resolves_witness:
  "run_failed 15000 demo_parse (always crashed_run (garmin_payload demo_env check_status (JObj [])))
   \<and> cache_lookup empty_server (cacheKey ''u1'' demo_env) = None
   \<and> callGarminDBService demo_parse demo_env (always crashed_run) check_status (JObj [])
        = Resolved (JObj [(''error'', JStr ''Unknown action'')])
   \<and> fst (checkGarminDBStatus demo_parse demo_env (always crashed_run) empty_server)
        = JObj [(''error'', JStr ''Unknown action'')]
   \<and> Resolved (fst (getLatestMetrics demo_parse demo_env (always crashed_run) ''u1'' empty_server))
        = callGarminDBService demo_parse demo_env (always crashed_run) get_latest_metrics
            (JObj [(''user_id'', JStr ''u1'')])"
proof -
  have failed: "run_failed 15000 demo_parse
      (always crashed_run (garmin_payload demo_env check_status (JObj [])))"
    by (simp add: run_failed_def always_def crashed_run_def)
  have miss: "cache_lookup empty_server (cacheKey ''u1'' demo_env) = None"
    by (simp add: cache_lookup_def empty_server_def)
  from callGarminDBService_always_resolves
         [of demo_parse demo_env "always crashed_run" check_status "JObj []" empty_server "''u1''"]
       failed miss
  show ?thesis by (metis fst_conv settled.inject(1))
qed




subsection \<open>getLatestMetrics\<close>

lemma getLatestMetrics_hit:
  assumes "cache_lookup st (cacheKey userId e) = Some v"
  shows "getLatestMetrics parse e prog userId st = (v, st)"
  using assms by (simp add: getLatestMetrics_def)

lemma getLatestMetrics_miss:
  assumes "cache_lookup st (cacheKey userId e) = None"
      and "callGarminDBService parse e prog get_latest_metrics (JObj [(''user_id'', JStr userId)])
            = Resolved v"
  shows "getLatestMetrics parse e prog userId st =
           (v, (after_await e (prog (garmin_payload e get_latest_metrics
                                       (JObj [(''user_id'', JStr userId)]))) st)
                 \<lparr> garminCache :=
                     (garminCache (after_await e (prog (garmin_payload e get_latest_metrics
                                       (JObj [(''user_id'', JStr userId)]))) st))
                       (cacheKey userId e \<mapsto> v),
                   timers :=
                     timers (after_await e (prog (garmin_payload e get_latest_metrics
                                       (JObj [(''user_id'', JStr userId)]))) st) @
                     [(now e + settle_delay 15000 (prog (garmin_payload e get_latest_metrics
                                       (JObj [(''user_id'', JStr userId)]))) + 1800000,
                       cacheKey userId e)] \<rparr>)"
  using assms by (simp add: getLatestMetrics_def Let_def)

lemma cache_lookup_truthy:
  "garminCache st k = Some v \<Longrightarrow> truthy v \<Longrightarrow> cache_lookup st k = Some v"
  by (simp add: cache_lookup_def)

lemma cacheKey_same_date: "toDateString e2 = toDateString e \<Longrightarrow> cacheKey u e2 = cacheKey u e"
  by (simp add: cacheKey_def)

text \<open>
  Claim C2, as stated, fails: after a \<open>getLatestMetrics\<close> call whose GarminDB run
  exits with code 1, the cache holds the fallback snapshot under the key of that user
  and day.
\<close>

theorem getLatestMetrics_fallback_counterexample:
  "run_failed 15000 demo_parse crashed_run
   \<and> garminCache (snd (getLatestMetrics demo_parse demo_env (always crashed_run) ''u1'' empty_server))
       (cacheKey ''u1'' demo_env) = Some demo_fallback"
proof -
  have miss: "cache_lookup empty_server (cacheKey ''u1'' demo_env) = None"
    by (simp add: cache_lookup_def empty_server_def)
  have failed: "run_failed 15000 demo_parse crashed_run"
    by (simp add: run_failed_def crashed_run_def)
  then have "callGarminDBService demo_parse demo_env (always crashed_run) get_latest_metrics
      (JObj [(''user_id'', JStr ''u1'')]) = Resolved demo_fallback"
    using callGarminDBService_failed [of demo_parse "always crashed_run" demo_env]
    by (simp add: always_def getFallbackData_demo_env)
  from getLatestMetrics_miss [of empty_server "''u1''" demo_env demo_parse "always crashed_run"
         demo_fallback] miss this failed
  show ?thesis
    by simp
qed

text \<open>
  Claim C2, amended. On a cache miss with a failed bridge run, \<open>getLatestMetrics\<close>
  returns the fallback snapshot and stores that snapshot in the cache under the key of
  the user and today's date; a call for the same user on the same date that finds this
  state gets the stored snapshot back and leaves the state, the count of spawned
  processes included, as it is.
\<close>

theorem getLatestMetrics_caches_fallback:
  assumes miss: "cache_lookup st (cacheKey userId e) = None"
      and failed: "run_failed 15000 parse
                     (prog (garmin_payload e get_latest_metrics (JObj [(''user_id'', JStr userId)])))"
  shows "fst (getLatestMetrics parse e prog userId st) = getFallbackData e get_latest_metrics
       \<and> garminCache (snd (getLatestMetrics parse e prog userId st)) (cacheKey userId e)
           = Some (getFallbackData e get_latest_metrics)
       \<and> (toDateString e2 = toDateString e \<longrightarrow>
            getLatestMetrics parse2 e2 prog2 userId (snd (getLatestMetrics parse e prog userId st))
              = (getFallbackData e get_latest_metrics,
                 snd (getLatestMetrics parse e prog userId st)))"
proof -
  let ?fb = "getFallbackData e get_latest_metrics"
  let ?st = "snd (getLatestMetrics parse e prog userId st)"
  have res: "callGarminDBService parse e prog get_latest_metrics
      (JObj [(''user_id'', JStr userId)]) = Resolved ?fb"
    using failed callGarminDBService_failed [of parse prog e get_latest_metrics
        "JObj [(''user_id'', JStr userId)]"]
    by simp
  note eq = getLatestMetrics_miss [of st userId e parse prog ?fb, OF miss res]
  have first: "fst (getLatestMetrics parse e prog userId st) = ?fb"
    by (simp add: eq)
  have held: "garminCache ?st (cacheKey userId e) = Some ?fb"
    by (simp add: eq)
  have again: "getLatestMetrics parse2 e2 prog2 userId ?st = (?fb, ?st)"
    if "toDateString e2 = toDateString e"
  proof -
    have "cache_lookup ?st (cacheKey userId e2) = Some ?fb"
      using held cacheKey_same_date [OF that, of userId]
      by (simp add: cache_lookup_truthy truthy_getFallbackData)
    then show ?thesis
      using getLatestMetrics_hit [of "snd (getLatestMetrics parse e prog userId st)" userId e2
          "getFallbackData e get_latest_metrics" parse2 prog2]
      by simp
  qed
  from first held again show ?thesis by blast
qed

theorem getLatestMetrics_caches_fallback_witness:
  "cache_lookup empty_server (cacheKey ''u1'' demo_env) = None
   \<and> run_failed 15000 demo_parse
        (always hung_run (garmin_payload demo_env get_latest_metrics (JObj [(''user_id'', JStr ''u1'')])))
   \<and> toDateString sync_env = toDateString demo_env
   \<and> fst (getLatestMetrics demo_parse demo_env (always hung_run) ''u1'' empty_server) = demo_fallback
   \<and> fst (getLatestMetrics demo_parse sync_env (always live_run) ''u1''
            (snd (getLatestMetrics demo_parse demo_env (always hung_run) ''u1'' empty_server)))
        = demo_fallback"
proof -
  have miss: "cache_lookup empty_server (cacheKey ''u1'' demo_env) = None"
    by (simp add: cache_lookup_def empty_server_def)
  have failed: "run_failed 15000 demo_parse
      (always hung_run (garmin_payload demo_env get_latest_metrics (JObj [(''user_id'', JStr ''u1'')])))"
    by (simp add: run_failed_def always_def hung_run_def closes_before_def)
  have date: "toDateString sync_env = toDateString demo_env"
    by (simp add: sync_env_def at_clock_def demo_env_def)
  from getLatestMetrics_caches_fallback
         [of empty_server "''u1''" demo_env demo_parse "always hung_run" sync_env demo_parse
             "always live_run"]
       miss failed date
  show ?thesis by (simp add: getFallbackData_demo_env)
qed

subsection \<open>syncGarminData\<close>

lemma syncGarminData_cache:
  "garminCache (snd (syncGarminData parse e prog userId st)) key =
     (if str_includes key userId then None
      else garminCache (after_await e (prog (garmin_payload e sync_data
             (JObj [(''user_id'', JStr userId)]))) st) key)"
  using callGarminDBService_resolves [of parse e prog sync_data "JObj [(''user_id'', JStr userId)]"]
  by (auto simp: syncGarminData_def Let_def)

lemma syncGarminData_result:
  "Resolved (fst (syncGarminData parse e prog userId st))
     = callGarminDBService parse e prog sync_data (JObj [(''user_id'', JStr userId)])"
  by (rule method_results)

text \<open>
  Claim C4, as stated, fails: \<open>u1\<close> has a cached snapshot, no deletion timer is due,
  the \<open>sync_data\<close> run exits with code 1; \<open>syncGarminData\<close> returns the fallback
  report with \<open>success: false\<close> and the cached snapshot of \<open>u1\<close> is gone.
\<close>

theorem syncGarminData_failure_counterexample:
  "garminCache two_user_server (cacheKey ''u1'' sync_env) = Some live_snapshot
   \<and> due_keys (now sync_env + 15000) two_user_server = []
   \<and> run_failed 15000 demo_parse crashed_run
   \<and> fst (syncGarminData demo_parse sync_env (always crashed_run) ''u1'' two_user_server)
       = JObj [(''success'', JBool False),
               (''message'', JStr ''GarminDB not available - using demo data''),
               (''lastSync'', JStr ''2026-11-03T09:10:00.000Z'')]
   \<and> garminCache (snd (syncGarminData demo_parse sync_env (always crashed_run) ''u1''
         two_user_server)) (cacheKey ''u1'' sync_env) = None"
proof -
  have failed: "run_failed 15000 demo_parse crashed_run"
    by (simp add: run_failed_def crashed_run_def)
  have "Resolved (fst (syncGarminData demo_parse sync_env (always crashed_run) ''u1'' two_user_server))
      = Resolved (getFallbackData sync_env sync_data)"
    unfolding syncGarminData_result
    using failed callGarminDBService_failed [of demo_parse "always crashed_run" sync_env sync_data
        "JObj [(''user_id'', JStr ''u1'')]"]
    by (simp add: always_def)
  then have report: "fst (syncGarminData demo_parse sync_env (always crashed_run) ''u1'' two_user_server)
      = getFallbackData sync_env sync_data"
    by simp
  show ?thesis
    using failed
    by (simp add: report syncGarminData_cache str_includes_cacheKey)
       (simp add: two_user_server_def cacheKey_def sync_env_def at_clock_def demo_env_def
          live_snapshot_def due_keys_def getFallbackData_def)
qed

text \<open>
  Claim C4, amended. \<open>syncGarminData\<close> invalidates the cache after every settlement
  of the bridge call: whether the \<open>sync_data\<close> run failed or not, no cache entry of
  that user, for any date, remains afterwards; on a failed run the method returns the
  fallback sync report.
\<close>

theorem syncGarminData_clears_after_any_outcome:
  "garminCache (snd (syncGarminData parse e prog userId st)) (cacheKey userId e2) = None
   \<and> (run_failed 15000 parse (prog (garmin_payload e sync_data (JObj [(''user_id'', JStr userId)])))
        \<longrightarrow> fst (syncGarminData parse e prog userId st) = getFallbackData e sync_data)"
proof -
  have "fst (syncGarminData parse e prog userId st) = getFallbackData e sync_data"
    if "run_failed 15000 parse (prog (garmin_payload e sync_data (JObj [(''user_id'', JStr userId)])))"
    using that callGarminDBService_failed [of parse prog e sync_data
        "JObj [(''user_id'', JStr userId)]"] syncGarminData_result [of parse e prog userId st]
    by simp
  then show ?thesis
    by (simp add: syncGarminData_cache str_includes_cacheKey)
qed

theorem syncGarminData_clears_after_any_outcome_witness:
  "garminCache two_user_server (cacheKey ''u1'' demo_env) = Some live_snapshot
   \<and> run_failed 15000 demo_parse
       (always hung_run (garmin_payload sync_env sync_data (JObj [(''user_id'', JStr ''u1'')])))
   \<and> garminCache (snd (syncGarminData demo_parse sync_env (always hung_run) ''u1'' two_user_server))
       (cacheKey ''u1'' demo_env) = None
   \<and> fst (syncGarminData demo_parse sync_env (always hung_run) ''u1'' two_user_server)
       = getFallbackData sync_env sync_data"
proof -
  have held: "garminCache two_user_server (cacheKey ''u1'' demo_env) = Some live_snapshot"
    by (simp add: two_user_server_def live_snapshot_def cacheKey_def demo_env_def)
  have failed: "run_failed 15000 demo_parse
      (always hung_run (garmin_payload sync_env sync_data (JObj [(''user_id'', JStr ''u1'')])))"
    by (simp add: run_failed_def always_def hung_run_def closes_before_def)
  from syncGarminData_clears_after_any_outcome
         [of demo_parse sync_env "always hung_run" "''u1''" two_user_server demo_env]
       held failed
  show ?thesis by simp
qed

text \<open>
  Claim C5 against the code: users \<open>u1\<close> and \<open>u10\<close> both have a cached snapshot and
  no deletion timer is due. A successful \<open>syncGarminData('u1')\<close> also removes the
  entry of \<open>u10\<close>, because \<open>key.includes(userId)\<close> finds \<open>u1\<close> inside
  \<open>metrics_u10_...\<close>.
\<close>

theorem syncGarminData_removes_other_user:
  "garminCache two_user_server (cacheKey ''u10'' sync_env) = Some (JObj [(''steps'', JNum 12)])
   \<and> due_keys (now sync_env + 15000) two_user_server = []
   \<and> fst (syncGarminData demo_parse sync_env (always sync_ok_run) ''u1'' two_user_server)
       = JObj [(''success'', JBool True)]
   \<and> garminCache (snd (syncGarminData demo_parse sync_env (always sync_ok_run) ''u1''
         two_user_server)) (cacheKey ''u10'' sync_env) = None"
proof -
  have "Resolved (fst (syncGarminData demo_parse sync_env (always sync_ok_run) ''u1'' two_user_server))
      = Resolved (JObj [(''success'', JBool True)])"
    unfolding syncGarminData_result
    using callGarminDBService_live [of "always sync_ok_run" sync_env sync_data
        "JObj [(''user_id'', JStr ''u1'')]" demo_parse "JObj [(''success'', JBool True)]"]
    by (simp add: always_def sync_ok_run_def closes_before_def demo_parse_def)
  then have report: "fst (syncGarminData demo_parse sync_env (always sync_ok_run) ''u1'' two_user_server)
      = JObj [(''success'', JBool True)]"
    by simp
  have inc: "str_includes (cacheKey ''u10'' sync_env) ''u1''"
    by (simp add: cacheKey_def sync_env_def at_clock_def demo_env_def)
  show ?thesis
    by (simp add: report syncGarminData_cache inc)
       (simp add: two_user_server_def cacheKey_def sync_env_def at_clock_def demo_env_def
          due_keys_def)
qed

text \<open>A key that does not contain \<open>userId\<close> is left to the timers alone.\<close>

lemma syncGarminData_other_keys:
  assumes "\<not> str_includes key userId"
  shows "garminCache (snd (syncGarminData parse e prog userId st)) key =
         garminCache (after_await e (prog (garmin_payload e sync_data
             (JObj [(''user_id'', JStr userId)]))) st) key"
  using assms by (simp add: syncGarminData_cache)

subsection \<open>The lifetime of a cache entry\<close>

lemma live_run_resolves:
  "callGarminDBService demo_parse e (always live_run) a params = Resolved live_snapshot"
  by (simp add: callGarminDBService_def always_def live_run_def closes_before_def demo_parse_def
        live_snapshot_def)

lemma first_fetch_demo:
  "getLatestMetrics demo_parse demo_env (always live_run) ''u1'' empty_server
     = (live_snapshot, aged_server)"
proof -
  have miss: "cache_lookup empty_server (cacheKey ''u1'' demo_env) = None"
    by (simp add: cache_lookup_def empty_server_def)
  show ?thesis
    unfolding getLatestMetrics_miss [of empty_server "''u1''" demo_env demo_parse "always live_run"
        live_snapshot, OF miss live_run_resolves]
    by (simp add: after_await_def run_timers_def due_keys_def empty_server_def aged_server_def
          always_def live_run_def settle_delay_def demo_env_def cacheKey_def live_snapshot_def)
qed

lemma aged_server_hit: "cache_lookup aged_server (cacheKey ''u1'' late_env) = Some live_snapshot"
  by (simp add: cache_lookup_def aged_server_def cacheKey_def late_env_def at_clock_def
        demo_env_def live_snapshot_def)

text \<open>
  Claim C6, as stated, fails: the entry written by the live fetch at 09:00:00.800 has its
  deletion timer due at 09:30:00.800. A request handled at 09:30:00.801, before the
  event loop has run that timer, is served the entry, and the lookup removes nothing.
\<close>

theorem cache_lookup_expired_counterexample:
  "getLatestMetrics demo_parse demo_env (always live_run) ''u1'' empty_server
     = (live_snapshot, aged_server)
   \<and> timers aged_server = [(34200800, cacheKey ''u1'' late_env)]
   \<and> 34200800 < now late_env
   \<and> getLatestMetrics demo_parse late_env (always hung_run) ''u1'' aged_server
     = (live_snapshot, aged_server)"
  using first_fetch_demo
        getLatestMetrics_hit [of aged_server "''u1''" late_env live_snapshot demo_parse
          "always hung_run", OF aged_server_hit]
  by (simp add: aged_server_def cacheKey_def late_env_def at_clock_def demo_env_def)

text \<open>
  Claim C6, amended. The cache lookup of \<open>getLatestMetrics\<close> returns a stored truthy
  entry whatever its age and leaves the cache as it is. An entry carries no expiry time:
  the write schedules a timer 30 minutes after the bridge settles, and the entry goes when
  the event loop runs that timer.
\<close>

theorem cache_entries_leave_by_timer:
  "(cache_lookup st (cacheKey userId e) = Some v
      \<longrightarrow> getLatestMetrics parse e prog userId st = (v, st))
   \<and> ((due, k) \<in> set (timers st) \<and> due \<le> t \<longrightarrow> garminCache (run_timers t st) k = None)
   \<and> (cache_lookup st (cacheKey userId e) = None
      \<longrightarrow> (now e + settle_delay 15000
                  (prog (garmin_payload e get_latest_metrics (JObj [(''user_id'', JStr userId)])))
              + 1800000, cacheKey userId e)
           \<in> set (timers (snd (getLatestMetrics parse e prog userId st))))"
proof -
  have hit: "getLatestMetrics parse e prog userId st = (v, st)"
    if "cache_lookup st (cacheKey userId e) = Some v"
    using that getLatestMetrics_hit [of st userId e v parse prog] by simp
  have fired: "garminCache (run_timers t st) k = None"
    if "(due, k) \<in> set (timers st) \<and> due \<le> t"
    using that by (auto simp: garminCache_run_timers due_keys_iff)
  have scheduled: "(now e + settle_delay 15000
                  (prog (garmin_payload e get_latest_metrics (JObj [(''user_id'', JStr userId)])))
              + 1800000, cacheKey userId e)
           \<in> set (timers (snd (getLatestMetrics parse e prog userId st)))"
    if miss: "cache_lookup st (cacheKey userId e) = None"
  proof -
    obtain w where "callGarminDBService parse e prog get_latest_metrics
        (JObj [(''user_id'', JStr userId)]) = Resolved w"
      using callGarminDBService_resolves by blast
    then show ?thesis
      using getLatestMetrics_miss [of st userId e parse prog w] miss by simp
  qed
  from hit fired scheduled show ?thesis by blast
qed

theorem cache_entries_leave_by_timer_witness:
  "cache_lookup aged_server (cacheKey ''u1'' late_env) = Some live_snapshot
   \<and> getLatestMetrics demo_parse late_env (always hung_run) ''u1'' aged_server
       = (live_snapshot, aged_server)
   \<and> (34200800, ''metrics_u1_Tue Nov 03 2026'') \<in> set (timers aged_server)
   \<and> (34200800 :: nat) \<le> 34200801
   \<and> garminCache (run_timers 34200801 aged_server) ''metrics_u1_Tue Nov 03 2026'' = None
   \<and> cache_lookup empty_server (cacheKey ''u1'' demo_env) = None
   \<and> (34200800, ''metrics_u1_Tue Nov 03 2026'')
       \<in> set (timers (snd (getLatestMetrics demo_parse demo_env (always live_run) ''u1''
                               empty_server)))"
proof -
  have member: "(34200800, ''metrics_u1_Tue Nov 03 2026'') \<in> set (timers aged_server)"
    by (simp add: aged_server_def)
  have miss: "cache_lookup empty_server (cacheKey ''u1'' demo_env) = None"
    by (simp add: cache_lookup_def empty_server_def)
  have delay: "now demo_env + settle_delay 15000
      (always live_run (garmin_payload demo_env get_latest_metrics (JObj [(''user_id'', JStr ''u1'')])))
      + 1800000 = 34200800"
    by (simp add: demo_env_def settle_delay_def always_def live_run_def)
  have key: "cacheKey ''u1'' demo_env = ''metrics_u1_Tue Nov 03 2026''"
    by (simp add: cacheKey_def demo_env_def)
  from cache_entries_leave_by_timer
         [of aged_server "''u1''" late_env live_snapshot demo_parse "always hung_run"
             34200800 "''metrics_u1_Tue Nov 03 2026''" 34200801]
       cache_entries_leave_by_timer
         [of empty_server "''u1''" demo_env live_snapshot demo_parse "always live_run"
             34200800 "''metrics_u1_Tue Nov 03 2026''" 34200801]
       aged_server_hit member miss delay key
  show ?thesis by simp
qed

subsection \<open>Two calls in a row\<close>







subsection \<open>The chat payload\<close>

text \<open>
  Claim C8 against the code: the chat route reads \<open>conversation_history\<close> from the
  request body and never uses it. The response and the state are the same as for a
  request without history, whatever the agent program does with its payload, and the
  payload of a chat call has the three properties \<open>request_type\<close>, \<open>data\<close> and
  \<open>message\<close> only.
\<close>

theorem route_agent_chat_drops_history:
  "route_agent_chat parse e gprog aprog h message conversation_history st
     = route_agent_chat parse e gprog aprog h message None st
   \<and> agent_payload (Some (JStr ''chat'')) (Some metrics) (Some text)
     = JObj [(''request_type'', JStr ''chat''), (''data'', metrics), (''message'', text)]"
  by (simp add: route_agent_chat_def agent_payload_def defined_fields_def)

subsection \<open>Routes\<close>








lemma fallback_reading_agent_refuses_live:
  "callAgent demo_parse fallback_reading_agent (Some (JStr ''chat''))
     (Some live_snapshot) (Some (JStr ''How am I doing?''))
     = Rejected ''Agent process failed: No module named garmindb''"
  by (simp add: callAgent_def agent_payload_def defined_fields_def fallback_reading_agent_def
        live_snapshot_def crashed_run_def closes_before_def)




end
